theory Spec2Isabelle
  imports Main
begin

section \<open>The end-to-end test configuration of telefunc\<close>

text \<open>
  The module \<^verbatim>\<open>test-e2e.config.mjs\<close> exports one object: the CI job matrix built by
  \<^verbatim>\<open>getCiJobs()\<close> and the log filter \<^verbatim>\<open>tolerateError\<close>. Both are embedded below as
  HOL functions. JavaScript strings are modelled as \<^typ>\<open>string\<close>; every string literal
  of the module is ASCII, so a code unit of the literal is one \<^typ>\<open>char\<close>.
\<close>

subsection \<open>The CI job matrix\<close>

text \<open>A setup is an object \<^verbatim>\<open>{ os, node_version }\<close>, a job an object \<^verbatim>\<open>{ name, setups }\<close>.\<close>

record ci_setup =
  os :: string
  node_version :: string

record ci_job =
  name :: string
  setups :: "ci_setup list"

definition getCiJobs :: "ci_job list" where
  "getCiJobs =
    (let ubuntu18 = \<lparr>os = ''ubuntu-latest'', node_version = ''18''\<rparr>;
         ubuntu16 = \<lparr>os = ''ubuntu-latest'', node_version = ''16''\<rparr>;
         ubuntu17 = \<lparr>os = ''ubuntu-latest'', node_version = ''17''\<rparr>;
         win14 = \<lparr>os = ''windows-latest'', node_version = ''14''\<rparr>;
         win18 = \<lparr>os = ''windows-latest'', node_version = ''18''\<rparr>;
         mac17 = \<lparr>os = ''macos-latest'', node_version = ''17''\<rparr>
     in [\<lparr>name = ''Vite'', setups = [ubuntu18, win14, mac17]\<rparr>,
         \<lparr>name = ''React Native'', setups = [ubuntu16]\<rparr>,
         \<lparr>name = ''Cloudflare Workers'', setups = [ubuntu17]\<rparr>,
         \<lparr>name = ''Next.js'', setups = [ubuntu16, win14]\<rparr>,
         \<lparr>name = ''Nuxt 2'', setups = [ubuntu16, win14]\<rparr>,
         \<lparr>name = ''SvelteKit'', setups = [ubuntu16, win18]\<rparr>,
         \<lparr>name = ''Prisma'', setups = [win14, mac17]\<rparr>,
         \<lparr>name = ''https://telefunc.com'', setups = [ubuntu18]\<rparr>])"

subsection \<open>JavaScript values and the built-ins the log filter calls\<close>

text \<open>
  \<^verbatim>\<open>tolerateError\<close> destructures its argument and applies \<^verbatim>\<open>===\<close>, \<^verbatim>\<open>&&\<close>, \<^verbatim>\<open>||\<close> and the
  method \<^verbatim>\<open>includes\<close> to the two properties it reads. The values a property can hold are
  the primitives and arrays; the payload of a number is never inspected by the module.
  Objects that carry an \<^verbatim>\<open>includes\<close> method of their own are outside the model.
  An object is a map from property names to values.
\<close>

datatype js_value =
    JSUndefined
  | JSNull
  | JSBoolean bool
  | JSNumber int
  | JSString string
  | JSArray "js_value list"

datatype js_error = TypeError

type_synonym js_object = "string \<rightharpoonup> js_value"

text \<open>Reading a property that the object does not have gives \<^verbatim>\<open>undefined\<close>.\<close>

definition get_prop :: "js_object \<Rightarrow> string \<Rightarrow> js_value" where
  "get_prop obj k = (case obj k of None \<Rightarrow> JSUndefined | Some v \<Rightarrow> v)"

text \<open>\<^verbatim>\<open>v === 'lit'\<close> for a string literal: true exactly for the string primitive with
  the same code units.\<close>

fun strict_equals_string :: "js_value \<Rightarrow> string \<Rightarrow> bool" where
  "strict_equals_string (JSString t) s = (t = s)"
| "strict_equals_string _ s = False"

text \<open>\<^verbatim>\<open>ToBoolean\<close>, which \<^verbatim>\<open>&&\<close> and \<^verbatim>\<open>||\<close> apply to their left operand.\<close>

fun to_boolean :: "js_value \<Rightarrow> bool" where
  "to_boolean JSUndefined = False"
| "to_boolean JSNull = False"
| "to_boolean (JSBoolean b) = b"
| "to_boolean (JSNumber n) = (n \<noteq> 0)"
| "to_boolean (JSString s) = (s \<noteq> [])"
| "to_boolean (JSArray xs) = True"

text \<open>
  \<^verbatim>\<open>StringIndexOf(string, searchValue, fromIndex)\<close> of ECMAScript: the least index
  \<open>i\<close> with \<open>fromIndex \<le> i \<le> len - searchLen\<close> at which the substring of length
  \<open>searchLen\<close> equals \<open>searchValue\<close>; the empty search value is found at \<open>fromIndex\<close>.
\<close>

definition StringIndexOf :: "string \<Rightarrow> string \<Rightarrow> nat \<Rightarrow> nat option" where
  "StringIndexOf s searchValue fromIndex =
    (if searchValue = [] \<and> fromIndex \<le> length s then Some fromIndex
     else List.find (\<lambda>i. take (length searchValue) (drop i s) = searchValue)
            [fromIndex ..< Suc (length s) - length searchValue])"

text \<open>\<^verbatim>\<open>String.prototype.includes(searchString)\<close> with the default position 0.\<close>

definition string_includes :: "string \<Rightarrow> string \<Rightarrow> bool" where
  "string_includes s searchString = (StringIndexOf s searchString 0 \<noteq> None)"

text \<open>\<^verbatim>\<open>Array.prototype.includes(searchElement)\<close> for a string \<^verbatim>\<open>searchElement\<close>:
  some element is the same value, that is the same string primitive.\<close>

definition array_includes :: "js_value list \<Rightarrow> string \<Rightarrow> bool" where
  "array_includes xs searchElement = list_ex (\<lambda>x. strict_equals_string x searchElement) xs"

text \<open>
  The call \<^verbatim>\<open>v.includes('lit')\<close>. On \<^verbatim>\<open>undefined\<close> and \<^verbatim>\<open>null\<close> the property
  access throws a \<^verbatim>\<open>TypeError\<close>; a boolean or a number has no \<^verbatim>\<open>includes\<close> property, so
  the call throws a \<^verbatim>\<open>TypeError\<close> too.
\<close>

fun call_includes :: "js_value \<Rightarrow> string \<Rightarrow> js_error + js_value" where
  "call_includes (JSString s) lit = Inr (JSBoolean (string_includes s lit))"
| "call_includes (JSArray xs) lit = Inr (JSBoolean (array_includes xs lit))"
| "call_includes _ lit = Inl TypeError"

subsection \<open>The log filter\<close>

text \<open>
  The two inner functions close over \<^verbatim>\<open>logSource\<close> and \<^verbatim>\<open>logText\<close>; here they take them
  as arguments. \<^verbatim>\<open>a && b\<close> with a boolean \<^verbatim>\<open>a\<close> is \<^verbatim>\<open>a\<close> when \<^verbatim>\<open>a\<close> is false and
  otherwise the value of \<^verbatim>\<open>b\<close>, which is only evaluated then.
\<close>

definition isRollupEmptyChunkWarning :: "js_value \<Rightarrow> js_value \<Rightarrow> js_error + js_value" where
  \<open>isRollupEmptyChunkWarning logSource logText =
    (if strict_equals_string logSource ''stderr''
     then call_includes logText ''Generated an empty chunk: "hooks"''
     else Inr (JSBoolean False))\<close>

definition isSveltekitTypesGenWarning :: "js_value \<Rightarrow> js_value \<Rightarrow> js_error + js_value" where
  \<open>isSveltekitTypesGenWarning logSource logText =
    (if strict_equals_string logSource ''stderr''
     then call_includes logText ''Cannot find base config file "./.svelte-kit/tsconfig.json"''
     else Inr (JSBoolean False))\<close>

text \<open>
  \<^verbatim>\<open>a || b\<close>: an exception of \<^verbatim>\<open>a\<close> propagates, a truthy value of \<^verbatim>\<open>a\<close> is the result,
  and only otherwise \<^verbatim>\<open>b\<close> is evaluated.
\<close>

definition tolerateError :: "js_object \<Rightarrow> js_error + js_value" where
  "tolerateError obj =
    (let logSource = get_prop obj ''logSource'';
         logText = get_prop obj ''logText''
     in case isRollupEmptyChunkWarning logSource logText of
          Inl e \<Rightarrow> Inl e
        | Inr v \<Rightarrow> if to_boolean v then Inr v
                  else isSveltekitTypesGenWarning logSource logText)"

subsection \<open>The default export\<close>

record ci_config =
  jobs :: "ci_job list"

record e2e_config =
  ci :: ci_config
  tolerateError_prop :: "js_object \<Rightarrow> js_error + js_value"

definition default_export :: e2e_config where
  "default_export = \<lparr>ci = \<lparr>jobs = getCiJobs\<rparr>, tolerateError_prop = tolerateError\<rparr>"

subsection \<open>Substrings\<close>

text \<open>
  What it means for a text to contain a substring, said without reference to the search:
  the text is some prefix, then the substring, then some suffix.
\<close>

definition contains_substring :: "string \<Rightarrow> string \<Rightarrow> bool" where
  "contains_substring text sub = (\<exists>before after. text = before @ sub @ after)"

subsection \<open>The body of \<open>getCiJobs\<close> as a program\<close>

text \<open>
  Whether a call depends on its arguments or on the environment it runs in is a question
  about the identifiers the body reads. For this question the function is also given as
  syntax: the statements of its body over the expressions it is written with (string
  literals, identifiers, object literals and array literals), with an evaluator that
  resolves every identifier in the scope of the call.
\<close>

datatype js_data =
    DUndefined
  | DString string
  | DObject "(string \<times> js_data) list"
  | DArray "js_data list"

datatype js_expr =
    StringLiteral string
  | Identifier string
  | ObjectLiteral "(string \<times> js_expr) list"
  | ArrayLiteral "js_expr list"

datatype js_stmt =
    ConstDecl string js_expr
  | ReturnStmt js_expr

record js_function =
  params :: "string list"
  body :: "js_stmt list"

datatype eval_error = ReferenceError

type_synonym js_bindings = "string \<rightharpoonup> js_data"

text \<open>\<^verbatim>\<open>function getCiJobs() { const ubuntu18 = {...} ... return [...] }\<close>\<close>

definition getCiJobs_function :: js_function where
  "getCiJobs_function = \<lparr>
     params = [],
     body =
       [ConstDecl ''ubuntu18'' (ObjectLiteral
          [(''os'', StringLiteral ''ubuntu-latest''), (''node_version'', StringLiteral ''18'')]),
        ConstDecl ''ubuntu16'' (ObjectLiteral
          [(''os'', StringLiteral ''ubuntu-latest''), (''node_version'', StringLiteral ''16'')]),
        ConstDecl ''ubuntu17'' (ObjectLiteral
          [(''os'', StringLiteral ''ubuntu-latest''), (''node_version'', StringLiteral ''17'')]),
        ConstDecl ''win14'' (ObjectLiteral
          [(''os'', StringLiteral ''windows-latest''), (''node_version'', StringLiteral ''14'')]),
        ConstDecl ''win18'' (ObjectLiteral
          [(''os'', StringLiteral ''windows-latest''), (''node_version'', StringLiteral ''18'')]),
        ConstDecl ''mac17'' (ObjectLiteral
          [(''os'', StringLiteral ''macos-latest''), (''node_version'', StringLiteral ''17'')]),
        ReturnStmt (ArrayLiteral
          [ObjectLiteral [(''name'', StringLiteral ''Vite''),
             (''setups'', ArrayLiteral
                [Identifier ''ubuntu18'', Identifier ''win14'', Identifier ''mac17''])],
           ObjectLiteral [(''name'', StringLiteral ''React Native''),
             (''setups'', ArrayLiteral [Identifier ''ubuntu16''])],
           ObjectLiteral [(''name'', StringLiteral ''Cloudflare Workers''),
             (''setups'', ArrayLiteral [Identifier ''ubuntu17''])],
           ObjectLiteral [(''name'', StringLiteral ''Next.js''),
             (''setups'', ArrayLiteral [Identifier ''ubuntu16'', Identifier ''win14''])],
           ObjectLiteral [(''name'', StringLiteral ''Nuxt 2''),
             (''setups'', ArrayLiteral [Identifier ''ubuntu16'', Identifier ''win14''])],
           ObjectLiteral [(''name'', StringLiteral ''SvelteKit''),
             (''setups'', ArrayLiteral [Identifier ''ubuntu16'', Identifier ''win18''])],
           ObjectLiteral [(''name'', StringLiteral ''Prisma''),
             (''setups'', ArrayLiteral [Identifier ''win14'', Identifier ''mac17''])],
           ObjectLiteral [(''name'', StringLiteral ''https://telefunc.com''),
             (''setups'', ArrayLiteral [Identifier ''ubuntu18''])]])]\<rparr>"

text \<open>The names that the \<^verbatim>\<open>const\<close> declarations of a body introduce.\<close>

fun declared_names :: "js_stmt list \<Rightarrow> string list" where
  "declared_names [] = []"
| "declared_names (ConstDecl x e # rest) = x # declared_names rest"
| "declared_names (ReturnStmt e # rest) = declared_names rest"

text \<open>
  Resolving an identifier: a local binding that is already initialised wins; a name the
  body declares but has not initialised yet is in its temporal dead zone and throws a
  \<^verbatim>\<open>ReferenceError\<close>; any other name is looked up in the environment outside the
  function, where a missing name throws a \<^verbatim>\<open>ReferenceError\<close> as well.
\<close>

definition resolve ::
  "js_bindings \<Rightarrow> string list \<Rightarrow> js_bindings \<Rightarrow> string \<Rightarrow> eval_error + js_data" where
  "resolve globals declared locals x =
    (case locals x of
       Some v \<Rightarrow> Inr v
     | None \<Rightarrow>
        if x \<in> set declared then Inl ReferenceError
        else (case globals x of Some v \<Rightarrow> Inr v | None \<Rightarrow> Inl ReferenceError))"

text \<open>Expressions are evaluated left to right; the first exception ends the evaluation.\<close>

fun eval_expr :: "(string \<Rightarrow> eval_error + js_data) \<Rightarrow> js_expr \<Rightarrow> eval_error + js_data"
  and eval_elements ::
    "(string \<Rightarrow> eval_error + js_data) \<Rightarrow> js_expr list \<Rightarrow> eval_error + js_data list"
  and eval_properties ::
    "(string \<Rightarrow> eval_error + js_data) \<Rightarrow> (string \<times> js_expr) list
      \<Rightarrow> eval_error + (string \<times> js_data) list"
where
  "eval_expr r (StringLiteral s) = Inr (DString s)"
| "eval_expr r (Identifier x) = r x"
| "eval_expr r (ObjectLiteral ps) =
    (case eval_properties r ps of Inl err \<Rightarrow> Inl err | Inr kvs \<Rightarrow> Inr (DObject kvs))"
| "eval_expr r (ArrayLiteral es) =
    (case eval_elements r es of Inl err \<Rightarrow> Inl err | Inr vs \<Rightarrow> Inr (DArray vs))"
| "eval_elements r [] = Inr []"
| "eval_elements r (e # es) =
    (case eval_expr r e of
       Inl err \<Rightarrow> Inl err
     | Inr v \<Rightarrow>
        (case eval_elements r es of Inl err \<Rightarrow> Inl err | Inr vs \<Rightarrow> Inr (v # vs)))"
| "eval_properties r [] = Inr []"
| "eval_properties r ((k, e) # ps) =
    (case eval_expr r e of
       Inl err \<Rightarrow> Inl err
     | Inr v \<Rightarrow>
        (case eval_properties r ps of
           Inl err \<Rightarrow> Inl err
         | Inr kvs \<Rightarrow> Inr ((k, v) # kvs)))"

text \<open>
  A body runs statement by statement: a \<^verbatim>\<open>const\<close> declaration initialises a local
  binding, \<^verbatim>\<open>return\<close> ends the call with a value, and a body that runs to its end returns
  \<^verbatim>\<open>undefined\<close>.
\<close>

fun exec_body ::
  "js_bindings \<Rightarrow> string list \<Rightarrow> js_bindings \<Rightarrow> js_stmt list \<Rightarrow> eval_error + js_data" where
  "exec_body globals declared locals [] = Inr DUndefined"
| "exec_body globals declared locals (ConstDecl x e # rest) =
    (case eval_expr (resolve globals declared locals) e of
       Inl err \<Rightarrow> Inl err
     | Inr v \<Rightarrow> exec_body globals declared (locals(x \<mapsto> v)) rest)"
| "exec_body globals declared locals (ReturnStmt e # rest) =
    eval_expr (resolve globals declared locals) e"

text \<open>
  A call binds the parameters to the arguments (a missing argument is \<^verbatim>\<open>undefined\<close>,
  surplus arguments are dropped) and runs the body in the environment of the call.
\<close>

fun bind_params :: "string list \<Rightarrow> js_data list \<Rightarrow> js_bindings" where
  "bind_params [] args = Map.empty"
| "bind_params (p # ps) [] = (bind_params ps [])(p \<mapsto> DUndefined)"
| "bind_params (p # ps) (a # args) = (bind_params ps args)(p \<mapsto> a)"

definition call_function ::
  "js_function \<Rightarrow> js_data list \<Rightarrow> js_bindings \<Rightarrow> eval_error + js_data" where
  "call_function f args globals =
    exec_body globals (declared_names (body f)) (bind_params (params f) args) (body f)"

text \<open>The property \<^verbatim>\<open>jobs: getCiJobs()\<close> of the default export: a call without arguments,
  made when the module is loaded, in whatever environment it is loaded in.\<close>

definition default_export_ci_jobs :: "js_bindings \<Rightarrow> eval_error + js_data" where
  "default_export_ci_jobs globals = call_function getCiJobs_function [] globals"

text \<open>A setup and a job of the matrix as the objects the program builds.\<close>

definition setup_data :: "ci_setup \<Rightarrow> js_data" where
  "setup_data s = DObject [(''os'', DString (os s)), (''node_version'', DString (node_version s))]"

definition job_data :: "ci_job \<Rightarrow> js_data" where
  "job_data j =
    DObject [(''name'', DString (name j)), (''setups'', DArray (map setup_data (setups j)))]"

section \<open>Properties\<close>

subsection \<open>Helper facts about the job matrix\<close>

lemma getCiJobs_names:
  "map name getCiJobs =
    [''Vite'', ''React Native'', ''Cloudflare Workers'', ''Next.js'', ''Nuxt 2'',
     ''SvelteKit'', ''Prisma'', ''https://telefunc.com'']"
  by (simp add: getCiJobs_def Let_def)

lemma getCiJobs_setups:
  "concat (map setups getCiJobs) =
     [\<lparr>os = ''ubuntu-latest'', node_version = ''18''\<rparr>,
      \<lparr>os = ''windows-latest'', node_version = ''14''\<rparr>,
      \<lparr>os = ''macos-latest'', node_version = ''17''\<rparr>,
      \<lparr>os = ''ubuntu-latest'', node_version = ''16''\<rparr>,
      \<lparr>os = ''ubuntu-latest'', node_version = ''17''\<rparr>,
      \<lparr>os = ''ubuntu-latest'', node_version = ''16''\<rparr>,
      \<lparr>os = ''windows-latest'', node_version = ''14''\<rparr>,
      \<lparr>os = ''ubuntu-latest'', node_version = ''16''\<rparr>,
      \<lparr>os = ''windows-latest'', node_version = ''14''\<rparr>,
      \<lparr>os = ''ubuntu-latest'', node_version = ''16''\<rparr>,
      \<lparr>os = ''windows-latest'', node_version = ''18''\<rparr>,
      \<lparr>os = ''windows-latest'', node_version = ''14''\<rparr>,
      \<lparr>os = ''macos-latest'', node_version = ''17''\<rparr>,
      \<lparr>os = ''ubuntu-latest'', node_version = ''18''\<rparr>]"
  by (simp add: getCiJobs_def Let_def)

lemma getCiJobs_setups_nonempty: "[] \<notin> set (map setups getCiJobs)"
  by (simp add: getCiJobs_def Let_def)

lemma setup_of_job_in_concat:
  "j \<in> set getCiJobs \<Longrightarrow> s \<in> set (setups j) \<Longrightarrow> s \<in> set (concat (map setups getCiJobs))"
  by auto

subsection \<open>The search of \<open>includes\<close> finds exactly the substrings\<close>

lemma find_upt_from_0: "(List.find P [0..<n] \<noteq> None) = (\<exists>i<n. P i)"
  by (auto simp: find_None_iff)

lemma occurrence_at_gives_split:
  assumes "take (length v) (drop i s) = v"
  shows "s = take i s @ v @ drop (i + length v) s"
proof -
  have "drop i s = take (length v) (drop i s) @ drop (length v) (drop i s)"
    by (rule append_take_drop_id [symmetric])
  also have "\<dots> = v @ drop (i + length v) s"
    using assms by (simp add: add.commute)
  finally have "take i s @ drop i s = take i s @ v @ drop (i + length v) s"
    by simp
  then show ?thesis by simp
qed

lemma split_gives_occurrence:
  assumes "s = p @ v @ q"
  shows "length p < Suc (length s) - length v"
    and "take (length v) (drop (length p) s) = v"
  using assms by simp_all

lemma StringIndexOf_found_iff:
  "(StringIndexOf s v 0 \<noteq> None) =
     (\<exists>i < Suc (length s) - length v. take (length v) (drop i s) = v)"
proof (cases "v = []")
  case True
  then show ?thesis by (auto simp: StringIndexOf_def)
next
  case False
  then show ?thesis
    by (simp only: StringIndexOf_def find_upt_from_0 if_False simp_thms)
qed

lemma string_includes_iff: "string_includes s v = contains_substring s v"
proof
  assume "string_includes s v"
  then obtain i where "take (length v) (drop i s) = v"
    unfolding string_includes_def StringIndexOf_found_iff by blast
  from occurrence_at_gives_split [OF this] show "contains_substring s v"
    unfolding contains_substring_def by blast
next
  assume "contains_substring s v"
  then obtain p q where "s = p @ v @ q"
    unfolding contains_substring_def by blast
  from split_gives_occurrence [OF this] show "string_includes s v"
    unfolding string_includes_def StringIndexOf_found_iff by blast
qed

subsection \<open>The log filter on string fields, and where it throws\<close>

lemma tolerateError_on_strings:
  assumes "get_prop obj ''logSource'' = JSString src"
    and "get_prop obj ''logText'' = JSString txt"
  shows \<open>tolerateError obj =
    Inr (JSBoolean (src = ''stderr'' \<and>
      (string_includes txt ''Generated an empty chunk: "hooks"'' \<or>
       string_includes txt ''Cannot find base config file "./.svelte-kit/tsconfig.json"'')))\<close>
  using assms
  by (simp add: tolerateError_def Let_def isRollupEmptyChunkWarning_def
      isSveltekitTypesGenWarning_def)

text \<open>
  The restriction to string fields matters: an entry from \<^verbatim>\<open>stderr\<close> that has no
  \<^verbatim>\<open>logText\<close> makes the filter throw.
\<close>

lemma tolerateError_throws_without_logText:
  "tolerateError [''logSource'' \<mapsto> JSString ''stderr''] = Inl TypeError"
  by (simp add: tolerateError_def Let_def get_prop_def isRollupEmptyChunkWarning_def)

subsection \<open>Jobs for the frameworks\<close>

text \<open>
  Claim C1, as stated: for each of Vite, Next.js, Nuxt and SvelteKit the matrix has a job
  whose name equals the framework's name. This fails for Nuxt: no job of the matrix is
  named \<^verbatim>\<open>Nuxt\<close>.
\<close>

theorem getCiJobs_has_no_job_named_Nuxt:
  "''Nuxt'' \<notin> set (map name getCiJobs)"
  by (simp add: getCiJobs_names)

text \<open>
  Claim C1, amended: the matrix has a job named \<^verbatim>\<open>Vite\<close>, a job named \<^verbatim>\<open>Next.js\<close> and a
  job named \<^verbatim>\<open>SvelteKit\<close>; the job for Nuxt is named \<^verbatim>\<open>Nuxt 2\<close>, the framework's name
  followed by its major version.
\<close>

theorem getCiJobs_covers_frameworks:
  "''Vite'' \<in> set (map name getCiJobs) \<and>
   ''Next.js'' \<in> set (map name getCiJobs) \<and>
   ''Nuxt 2'' \<in> set (map name getCiJobs) \<and>
   ''SvelteKit'' \<in> set (map name getCiJobs)"
  by (simp add: getCiJobs_names)

subsection \<open>What the log filter tolerates\<close>

text \<open>
  Claim C2: when the \<^verbatim>\<open>logSource\<close> and \<^verbatim>\<open>logText\<close> fields of the argument are strings,
  \<^verbatim>\<open>tolerateError\<close> returns the boolean that is true if and only if \<^verbatim>\<open>logSource\<close>
  equals \<^verbatim>\<open>stderr\<close> and \<^verbatim>\<open>logText\<close> contains one of the two warning texts as a
  substring. In particular the result is \<^verbatim>\<open>false\<close> whenever \<^verbatim>\<open>logSource\<close> is not
  \<^verbatim>\<open>stderr\<close>, since the boolean returned is then a conjunction with a false conjunct.
\<close>

theorem tolerateError_true_iff:
  assumes "get_prop obj ''logSource'' = JSString src"
    and "get_prop obj ''logText'' = JSString txt"
  shows \<open>tolerateError obj =
    Inr (JSBoolean (src = ''stderr'' \<and>
      (contains_substring txt ''Generated an empty chunk: "hooks"'' \<or>
       contains_substring txt ''Cannot find base config file "./.svelte-kit/tsconfig.json"'')))\<close>
  using tolerateError_on_strings [OF assms] by (simp only: string_includes_iff)

text \<open>
  An entry from \<^verbatim>\<open>stderr\<close> whose text ends with the Rollup warning is tolerated; the
  same text from \<^verbatim>\<open>stdout\<close> is not.
\<close>

theorem tolerateError_true_iff_witness:
  \<open>get_prop [''logSource'' \<mapsto> JSString ''stderr'',
             ''logText'' \<mapsto> JSString ''(!) Generated an empty chunk: "hooks"'']
     ''logSource'' = JSString ''stderr'' \<and>
   get_prop [''logSource'' \<mapsto> JSString ''stderr'',
             ''logText'' \<mapsto> JSString ''(!) Generated an empty chunk: "hooks"'']
     ''logText'' = JSString ''(!) Generated an empty chunk: "hooks"'' \<and>
   tolerateError [''logSource'' \<mapsto> JSString ''stderr'',
                  ''logText'' \<mapsto> JSString ''(!) Generated an empty chunk: "hooks"'']
     = Inr (JSBoolean True) \<and>
   tolerateError [''logSource'' \<mapsto> JSString ''stdout'',
                  ''logText'' \<mapsto> JSString ''(!) Generated an empty chunk: "hooks"'']
     = Inr (JSBoolean False)\<close>
proof -
  let ?txt = \<open>''(!) Generated an empty chunk: "hooks"''\<close>
  let ?err = "[''logSource'' \<mapsto> JSString ''stderr'', ''logText'' \<mapsto> JSString ?txt]"
  let ?out = "[''logSource'' \<mapsto> JSString ''stdout'', ''logText'' \<mapsto> JSString ?txt]"
  have lsrc: "get_prop ?err ''logSource'' = JSString ''stderr''"
    by (simp add: get_prop_def)
  have ltext: "get_prop ?err ''logText'' = JSString ?txt"
    by (simp add: get_prop_def)
  have lsrc': "get_prop ?out ''logSource'' = JSString ''stdout''"
    by (simp add: get_prop_def)
  have ltext': "get_prop ?out ''logText'' = JSString ?txt"
    by (simp add: get_prop_def)
  have \<open>?txt = ''(!) '' @ ''Generated an empty chunk: "hooks"'' @ []\<close>
    by simp
  then have sub: \<open>contains_substring ?txt ''Generated an empty chunk: "hooks"''\<close>
    unfolding contains_substring_def by blast
  have "tolerateError ?err = Inr (JSBoolean True)"
    using tolerateError_true_iff [OF lsrc ltext] sub by simp
  moreover have "tolerateError ?out = Inr (JSBoolean False)"
    using tolerateError_true_iff [OF lsrc' ltext'] by simp
  ultimately show ?thesis using lsrc ltext by simp
qed

subsection \<open>The exported job list is fixed\<close>

text \<open>
  Run as a program, a call of \<^verbatim>\<open>getCiJobs\<close> returns the job matrix whatever arguments it
  is given and whatever the environment binds: every identifier the body reads is one of
  its own constants, initialised before it is read.
\<close>

lemma call_getCiJobs_function:
  "call_function getCiJobs_function args globals = Inr (DArray (map job_data getCiJobs))"
  by (simp add: call_function_def getCiJobs_function_def resolve_def getCiJobs_def Let_def
      job_data_def setup_data_def)

text \<open>
  This is a property of the body and not of the evaluator: a function that returns a
  name it does not declare gives different values in different environments.
\<close>

lemma call_function_can_depend_on_globals:
  "call_function \<lparr>params = [], body = [ReturnStmt (Identifier ''CI'')]\<rparr> []
     [''CI'' \<mapsto> DString ''true'']
   \<noteq> call_function \<lparr>params = [], body = [ReturnStmt (Identifier ''CI'')]\<rparr> []
     [''CI'' \<mapsto> DString ''false'']"
  by (simp add: call_function_def resolve_def)

text \<open>
  Claim C3: the exported CI configuration is static. Any two evaluations of
  \<^verbatim>\<open>getCiJobs\<close> return equal values, whatever arguments they are given and whatever
  environment each of them runs in (the state that earlier calls could have left behind
  is part of that environment); and the \<^verbatim>\<open>ci.jobs\<close> field of the default export is, in
  every environment, the same fixed list, namely the job matrix.
\<close>

theorem getCiJobs_is_static:
  "call_function getCiJobs_function args1 globals1
     = call_function getCiJobs_function args2 globals2 \<and>
   default_export_ci_jobs globals = Inr (DArray (map job_data (jobs (ci default_export))))"
proof
  show "call_function getCiJobs_function args1 globals1
     = call_function getCiJobs_function args2 globals2"
    by (simp only: call_getCiJobs_function)
next
  have "jobs (ci default_export) = getCiJobs"
    by (simp add: default_export_def)
  then show "default_export_ci_jobs globals
     = Inr (DArray (map job_data (jobs (ci default_export))))"
    by (simp only: default_export_ci_jobs_def call_getCiJobs_function)
qed

subsection \<open>The log filter returns a boolean\<close>

text \<open>
  Claim C4: when the \<^verbatim>\<open>logSource\<close> and \<^verbatim>\<open>logText\<close> fields of the argument are strings,
  \<^verbatim>\<open>tolerateError\<close> returns normally and its value is a boolean: it neither throws nor
  returns a value of another type. The filter and every function it calls are total
  functions without state, which is how the embedding renders that the call terminates
  and has no side effect.
\<close>

theorem tolerateError_returns_boolean:
  assumes "get_prop obj ''logSource'' = JSString src"
    and "get_prop obj ''logText'' = JSString txt"
  shows "\<exists>b. tolerateError obj = Inr (JSBoolean b)"
  using tolerateError_on_strings [OF assms] by blast

theorem tolerateError_returns_boolean_witness:
  "get_prop [''logSource'' \<mapsto> JSString ''stderr'', ''logText'' \<mapsto> JSString ''npm WARN'']
     ''logSource'' = JSString ''stderr'' \<and>
   get_prop [''logSource'' \<mapsto> JSString ''stderr'', ''logText'' \<mapsto> JSString ''npm WARN'']
     ''logText'' = JSString ''npm WARN'' \<and>
   (\<exists>b. tolerateError
      [''logSource'' \<mapsto> JSString ''stderr'', ''logText'' \<mapsto> JSString ''npm WARN'']
        = Inr (JSBoolean b))"
proof -
  let ?obj = "[''logSource'' \<mapsto> JSString ''stderr'', ''logText'' \<mapsto> JSString ''npm WARN'']"
  have lsrc: "get_prop ?obj ''logSource'' = JSString ''stderr''"
    by (simp add: get_prop_def)
  have ltext: "get_prop ?obj ''logText'' = JSString ''npm WARN''"
    by (simp add: get_prop_def)
  from tolerateError_returns_boolean [OF lsrc ltext] lsrc ltext show ?thesis
    by (intro conjI)
qed

subsection \<open>Every job and setup is well formed\<close>

text \<open>
  Claim C5: every job of the matrix has a non-empty name and a non-empty list of setups,
  and every setup of every job has an \<^verbatim>\<open>os\<close> among \<^verbatim>\<open>ubuntu-latest\<close>,
  \<^verbatim>\<open>windows-latest\<close>, \<^verbatim>\<open>macos-latest\<close> and a \<^verbatim>\<open>node_version\<close> among \<^verbatim>\<open>14\<close>, \<^verbatim>\<open>16\<close>,
  \<^verbatim>\<open>17\<close>, \<^verbatim>\<open>18\<close>.
\<close>

theorem getCiJobs_well_formed:
  "\<forall>j \<in> set getCiJobs.
     name j \<noteq> [] \<and> setups j \<noteq> [] \<and>
     (\<forall>s \<in> set (setups j).
        os s \<in> {''ubuntu-latest'', ''windows-latest'', ''macos-latest''} \<and>
        node_version s \<in> {''14'', ''16'', ''17'', ''18''})"
proof (intro ballI conjI)
  fix j assume j: "j \<in> set getCiJobs"
  then have "name j \<in> set (map name getCiJobs)" by simp
  then show "name j \<noteq> []" unfolding getCiJobs_names by auto
  from j have "setups j \<in> set (map setups getCiJobs)" by simp
  with getCiJobs_setups_nonempty show "setups j \<noteq> []" by metis
  fix s assume "s \<in> set (setups j)"
  with j have s: "s \<in> set (concat (map setups getCiJobs))"
    by (rule setup_of_job_in_concat)
  from s show "os s \<in> {''ubuntu-latest'', ''windows-latest'', ''macos-latest''}"
    unfolding getCiJobs_setups by auto
  from s show "node_version s \<in> {''14'', ''16'', ''17'', ''18''}"
    unfolding getCiJobs_setups by auto
qed

text \<open>The Prisma job and its macOS setup, as an instance.\<close>

theorem getCiJobs_well_formed_witness:
  "\<lparr>name = ''Prisma'',
      setups = [\<lparr>os = ''windows-latest'', node_version = ''14''\<rparr>,
                \<lparr>os = ''macos-latest'', node_version = ''17''\<rparr>]\<rparr> \<in> set getCiJobs \<and>
   \<lparr>os = ''macos-latest'', node_version = ''17''\<rparr>
     \<in> set (setups \<lparr>name = ''Prisma'',
                      setups = [\<lparr>os = ''windows-latest'', node_version = ''14''\<rparr>,
                                \<lparr>os = ''macos-latest'', node_version = ''17''\<rparr>]\<rparr>) \<and>
   name \<lparr>name = ''Prisma'',
      setups = [\<lparr>os = ''windows-latest'', node_version = ''14''\<rparr>,
                \<lparr>os = ''macos-latest'', node_version = ''17''\<rparr>]\<rparr> \<noteq> [] \<and>
   setups \<lparr>name = ''Prisma'',
      setups = [\<lparr>os = ''windows-latest'', node_version = ''14''\<rparr>,
                \<lparr>os = ''macos-latest'', node_version = ''17''\<rparr>]\<rparr> \<noteq> [] \<and>
   os \<lparr>os = ''macos-latest'', node_version = ''17''\<rparr>
     \<in> {''ubuntu-latest'', ''windows-latest'', ''macos-latest''} \<and>
   node_version \<lparr>os = ''macos-latest'', node_version = ''17''\<rparr>
     \<in> {''14'', ''16'', ''17'', ''18''}"
proof -
  let ?s = "\<lparr>os = ''macos-latest'', node_version = ''17''\<rparr>"
  let ?j = "\<lparr>name = ''Prisma'',
      setups = [\<lparr>os = ''windows-latest'', node_version = ''14''\<rparr>, ?s]\<rparr>"
  have j: "?j \<in> set getCiJobs"
    by (simp add: getCiJobs_def Let_def)
  have s: "?s \<in> set (setups ?j)"
    by simp
  from getCiJobs_well_formed j
  have *: "name ?j \<noteq> [] \<and> setups ?j \<noteq> [] \<and>
     (\<forall>s \<in> set (setups ?j).
        os s \<in> {''ubuntu-latest'', ''windows-latest'', ''macos-latest''} \<and>
        node_version s \<in> {''14'', ''16'', ''17'', ''18''})"
    by (rule bspec)
  then have "os ?s \<in> {''ubuntu-latest'', ''windows-latest'', ''macos-latest''} \<and>
        node_version ?s \<in> {''14'', ''16'', ''17'', ''18''}"
    using s by blast
  with * j s show ?thesis by blast
qed

subsection \<open>The log filter reads two fields only\<close>

text \<open>
  Claim C6: \<^verbatim>\<open>tolerateError\<close> depends only on what its argument holds under
  \<^verbatim>\<open>logSource\<close> and \<^verbatim>\<open>logText\<close>. Two objects that agree on these two properties get the
  same outcome (the same value, or the same exception), whatever else they hold.
\<close>

theorem tolerateError_depends_only_on_its_two_fields:
  assumes "get_prop a ''logSource'' = get_prop b ''logSource''"
    and "get_prop a ''logText'' = get_prop b ''logText''"
  shows "tolerateError a = tolerateError b"
  using assms by (simp add: tolerateError_def Let_def)

text \<open>An entry with and without an additional property \<^verbatim>\<open>isEntireLog\<close>.\<close>

theorem tolerateError_depends_only_on_its_two_fields_witness:
  "get_prop [''logSource'' \<mapsto> JSString ''stderr'', ''logText'' \<mapsto> JSString ''npm WARN'']
     ''logSource''
   = get_prop [''logSource'' \<mapsto> JSString ''stderr'', ''logText'' \<mapsto> JSString ''npm WARN'',
               ''isEntireLog'' \<mapsto> JSBoolean True] ''logSource'' \<and>
   get_prop [''logSource'' \<mapsto> JSString ''stderr'', ''logText'' \<mapsto> JSString ''npm WARN'']
     ''logText''
   = get_prop [''logSource'' \<mapsto> JSString ''stderr'', ''logText'' \<mapsto> JSString ''npm WARN'',
               ''isEntireLog'' \<mapsto> JSBoolean True] ''logText'' \<and>
   tolerateError [''logSource'' \<mapsto> JSString ''stderr'', ''logText'' \<mapsto> JSString ''npm WARN'']
   = tolerateError [''logSource'' \<mapsto> JSString ''stderr'', ''logText'' \<mapsto> JSString ''npm WARN'',
                    ''isEntireLog'' \<mapsto> JSBoolean True]"
proof -
  let ?a = "[''logSource'' \<mapsto> JSString ''stderr'', ''logText'' \<mapsto> JSString ''npm WARN'']"
  let ?b = "?a(''isEntireLog'' \<mapsto> JSBoolean True)"
  have lsrc: "get_prop ?a ''logSource'' = get_prop ?b ''logSource''"
    by (simp add: get_prop_def)
  have ltext: "get_prop ?a ''logText'' = get_prop ?b ''logText''"
    by (simp add: get_prop_def)
  from tolerateError_depends_only_on_its_two_fields [OF lsrc ltext] lsrc ltext show ?thesis
    by (intro conjI)
qed

subsection \<open>The eight jobs and their order\<close>

text \<open>
  Claim C7: the matrix has exactly 8 jobs, their names are pairwise distinct, and they
  come in the order \<^verbatim>\<open>Vite\<close>, \<^verbatim>\<open>React Native\<close>, \<^verbatim>\<open>Cloudflare Workers\<close>, \<^verbatim>\<open>Next.js\<close>,
  \<^verbatim>\<open>Nuxt 2\<close>, \<^verbatim>\<open>SvelteKit\<close>, \<^verbatim>\<open>Prisma\<close>, \<^verbatim>\<open>https://telefunc.com\<close>.
\<close>

theorem getCiJobs_eight_distinct_names_in_order:
  "length getCiJobs = 8 \<and>
   distinct (map name getCiJobs) \<and>
   map name getCiJobs =
     [''Vite'', ''React Native'', ''Cloudflare Workers'', ''Next.js'', ''Nuxt 2'',
      ''SvelteKit'', ''Prisma'', ''https://telefunc.com'']"
proof (intro conjI)
  show "length getCiJobs = 8"
    by (simp add: getCiJobs_def Let_def)
  show "distinct (map name getCiJobs)"
    by (simp add: getCiJobs_names)
  show "map name getCiJobs =
     [''Vite'', ''React Native'', ''Cloudflare Workers'', ''Next.js'', ''Nuxt 2'',
      ''SvelteKit'', ''Prisma'', ''https://telefunc.com'']"
    by (rule getCiJobs_names)
qed

end
